theory Spec2Isabelle
  imports Main "HOL-Library.Word"
begin

section \<open>The sshesame bootstrap: data model\<close>

text \<open>
  The program of \<^verbatim>\<open>main.go\<close> is a sequence of calls into libraries (the file system,
  \<^verbatim>\<open>crypto/ed25519\<close>, \<^verbatim>\<open>x/crypto/ssh\<close>, \<^verbatim>\<open>net\<close>, \<^verbatim>\<open>logrus\<close>) and of \<^verbatim>\<open>go\<close>
  statements. The embedding makes both explicit: what a library call returns is read from
  a record of outcomes (\<open>World\<close>), and what the program does to the outside is a list of
  events in program order, one list per goroutine.

  Go's \<^verbatim>\<open>string\<close> and \<^verbatim>\<open>[]byte\<close> are both sequences of bytes; an Isabelle \<open>char\<close> is a
  byte, so both are \<open>char list\<close> and the conversion \<^verbatim>\<open>string(b)\<close> is the identity.
  A Go \<^verbatim>\<open>error\<close> is represented by the text its \<^verbatim>\<open>Error()\<close> method returns.
\<close>

type_synonym bytes = "char list"

type_synonym error = string

text \<open>\<^verbatim>\<open>[32]byte\<close>, the result type of \<^verbatim>\<open>sha256.Sum256\<close>.\<close>

typedef array32 = "{bs :: bytes. length bs = 32}"
  by (rule exI [of _ "replicate 32 (CHR ''0'')"]) simp

setup_lifting type_definition_array32

text \<open>\<^verbatim>\<open>net.Addr\<close>: the network name and the textual address.\<close>

datatype net_Addr = Addr (Network: string) (String: string)

subsection \<open>logrus\<close>

datatype Level = FatalLevel | WarnLevel | InfoLevel

text \<open>The values this program puts into \<^verbatim>\<open>log.Fields\<close> (a \<^verbatim>\<open>map[string]interface{}\<close>).\<close>

datatype field_value =
    AddrVal net_Addr
  | StringVal string
  | Array32Val array32

type_synonym Fields = "string \<rightharpoonup> field_value"

record Entry =
  Level :: Level
  Message :: string
  Data :: Fields

text \<open>
  \<^verbatim>\<open>log.WithFields(f).Info(msg)\<close>, \<^verbatim>\<open>log.WithFields(f).Warning(msg)\<close>: one entry at the
  level, with the fields. \<^verbatim>\<open>log.Warning(a, b)\<close> and \<^verbatim>\<open>log.Fatal(a, b)\<close> format their
  operands with \<^verbatim>\<open>fmt.Sprint\<close>, which puts no space between two strings.
\<close>

definition WithFields_Info :: "Fields \<Rightarrow> string \<Rightarrow> Entry" where
  "WithFields_Info f msg = \<lparr>Level = InfoLevel, Message = msg, Data = f\<rparr>"

definition WithFields_Warning :: "Fields \<Rightarrow> string \<Rightarrow> Entry" where
  "WithFields_Warning f msg = \<lparr>Level = WarnLevel, Message = msg, Data = f\<rparr>"

definition Sprint :: "string list \<Rightarrow> string" where
  "Sprint args = concat args"

definition log_Warning :: "string list \<Rightarrow> Entry" where
  "log_Warning args = \<lparr>Level = WarnLevel, Message = Sprint args, Data = Map.empty\<rparr>"

subsection \<open>The authentication policy\<close>

text \<open>\<^verbatim>\<open>ssh.ConnMetadata\<close>: the three methods the callback calls.\<close>

record ConnMetadata =
  User :: string
  RemoteAddr :: net_Addr
  ClientVersion :: bytes

text \<open>\<^verbatim>\<open>*ssh.Permissions\<close>; the callback only ever returns \<^verbatim>\<open>nil\<close>.\<close>

record Permissions =
  CriticalOptions :: "string \<rightharpoonup> string"
  Extensions :: "string \<rightharpoonup> string"

text \<open>
  The closure assigned to \<^verbatim>\<open>PasswordCallback\<close> (main.go, lines 55 to 63). It returns the
  entries it logged, and the pair \<^verbatim>\<open>(*ssh.Permissions, error)\<close>, \<open>None\<close> being \<^verbatim>\<open>nil\<close>.
\<close>

definition PasswordCallback ::
  "ConnMetadata \<Rightarrow> bytes \<Rightarrow> Entry list \<times> (Permissions option \<times> error option)" where
  "PasswordCallback conn password =
     ([WithFields_Info
         [''client'' \<mapsto> AddrVal (RemoteAddr conn),
          ''user'' \<mapsto> StringVal (User conn),
          ''password'' \<mapsto> StringVal password,
          ''version'' \<mapsto> StringVal (ClientVersion conn)]
         ''Password authentication accepted''],
      (None, None))"

subsection \<open>Keys\<close>

text \<open>
  \<^verbatim>\<open>ssh.PublicKey\<close> and \<^verbatim>\<open>ssh.Signer\<close>, as the results of the methods the program
  calls: \<^verbatim>\<open>Marshal()\<close> is the SSH wire format of a public key.
\<close>

record ssh_PublicKey =
  KeyType :: string
  Marshal :: bytes

record Signer =
  PublicKey :: ssh_PublicKey

text \<open>\<^verbatim>\<open>crypto.Signer\<close>: the private keys of the standard library that implement it.\<close>

datatype crypto_Signer =
    ed25519_PrivateKey bytes
  | rsa_PrivateKey bytes
  | ecdsa_PrivateKey bytes

text \<open>
  \<^verbatim>\<open>io.Reader\<close>, as a source of randomness. \<^verbatim>\<open>crypto/rand.Reader\<close> is the operating
  system's cryptographically secure generator.
\<close>

datatype io_Reader = crypto_rand_Reader | other_Reader string

subsection \<open>Connections and streams\<close>

datatype Conn = Conn (fd: nat) (Conn_RemoteAddr: net_Addr)

datatype Listener = Listener (Listener_Addr: net_Addr)

datatype NewChannel = NewChannel (ChannelType: string) (ExtraData: bytes)

datatype Request = Request (ReqType: string) (WantReply: bool) (Payload: bytes)

text \<open>
  A receive-only Go channel, as the program sees it through \<^verbatim>\<open>range\<close>: the values it
  delivers, and whether it is closed after them. \<^verbatim>\<open>range\<close> over a channel that is never
  closed blocks for ever after the last value.
\<close>

record 'a chan =
  items :: "'a list"
  is_closed :: bool

text \<open>
  What one SSH handshake on a connection does, as far as the program can see: the client's
  version, the password attempts (user, password) that reach the callback while the
  handshake runs, and the result of \<^verbatim>\<open>ssh.NewServerConn\<close>, an error or the two streams
  (the \<^verbatim>\<open>*ssh.ServerConn\<close> is discarded by the program). Authentication is a part of
  the handshake: the library calls the callback when it has read a password request and
  before it answers it, so an attempt can be followed by an error, for instance when the
  client closes the connection before the answer is written. A handshake that never
  completes has no result; \<^verbatim>\<open>handleConn\<close> then does nothing more, and the case is left out.
\<close>

record Handshake =
  client_version :: bytes
  attempts :: "(string \<times> bytes) list"
  result :: "error + (NewChannel chan \<times> Request chan)"

subsection \<open>Configuration and the outside world\<close>

text \<open>The command line, after \<^verbatim>\<open>flag.Parse()\<close>. \<^verbatim>\<open>port\<close> is a \<^verbatim>\<open>uint\<close> of 64 bits.\<close>

record Flags =
  host_key :: string
  listen_address :: string
  port :: "64 word"
  json_logging :: bool
  server_version :: string

record ServerConfig =
  ServerVersion :: string
  PasswordCallback_field ::
    "ConnMetadata \<Rightarrow> bytes \<Rightarrow> Entry list \<times> (Permissions option \<times> error option)"
  hostKeys :: "Signer list"

text \<open>
  The outcomes of the library calls, which the program does not control:
  \<^verbatim>\<open>ioutil.ReadFile\<close>, \<^verbatim>\<open>ssh.ParsePrivateKey\<close>, key generation from a source of randomness,
  \<^verbatim>\<open>ssh.NewSignerFromSigner\<close>, \<^verbatim>\<open>sha256.Sum256\<close>, \<^verbatim>\<open>net.Listen\<close>, the results of the
  successive calls of \<^verbatim>\<open>listener.Accept()\<close>, and the handshake on each connection.
  \<^verbatim>\<open>Accept()\<close> blocks until a connection arrives: \<open>Accepts\<close> lists the calls that have
  returned, so every run of the model is a finite prefix of a run of the server.
\<close>

record World =
  ReadFile :: "string \<Rightarrow> error + bytes"
  ParsePrivateKey :: "bytes \<Rightarrow> error + Signer"
  ed25519_keygen :: "io_Reader \<Rightarrow> error + (bytes \<times> bytes)"
  NewSignerFromSigner :: "crypto_Signer \<Rightarrow> error + Signer"
  Sum256 :: "bytes \<Rightarrow> array32"
  Listen :: "string \<Rightarrow> string \<Rightarrow> error + Listener"
  Accepts :: "(error + Conn) list"
  handshake :: "Conn \<Rightarrow> Handshake"

subsection \<open>Events\<close>

text \<open>
  The tasks the program starts with a \<^verbatim>\<open>go\<close> statement, with the arguments, which Go
  evaluates in the goroutine that executes the statement.
\<close>

datatype task =
    handleConn_task ServerConfig Conn
  | request_Handle net_Addr string "Request chan"
  | channel_Handle net_Addr NewChannel

datatype file_op = OpRead | OpWrite

datatype event =
    SetFormatter_JSON
  | Log Entry
  | Exit int
  | File file_op string
  | GenerateKey_from io_Reader
  | Net_Listen string string
  | Net_Accept
  | SSH_Handshake Conn
  | Go task
  | Conn_Close Conn

text \<open>\<^verbatim>\<open>log.Fatal\<close> logs at fatal level and then calls \<^verbatim>\<open>os.Exit(1)\<close>.\<close>

definition log_Fatal :: "string list \<Rightarrow> event list" where
  "log_Fatal args =
     [Log \<lparr>Level = FatalLevel, Message = Sprint args, Data = Map.empty\<rparr>, Exit 1]"

subsection \<open>Library functions with a fixed meaning\<close>

text \<open>
  \<^verbatim>\<open>ed25519.GenerateKey(rand)\<close>: a \<^verbatim>\<open>nil\<close> reader stands for \<^verbatim>\<open>crypto/rand.Reader\<close>.
  The result is the public and the private key.
\<close>

definition rand_source :: "io_Reader option \<Rightarrow> io_Reader" where
  "rand_source r = (case r of None \<Rightarrow> crypto_rand_Reader | Some r' \<Rightarrow> r')"

definition ed25519_GenerateKey ::
  "World \<Rightarrow> io_Reader option \<Rightarrow> event list \<times> (error + (bytes \<times> bytes))" where
  "ed25519_GenerateKey w r =
     ([GenerateKey_from (rand_source r)], ed25519_keygen w (rand_source r))"

text \<open>\<^verbatim>\<open>strconv.Itoa\<close>: the decimal digits of an \<^verbatim>\<open>int\<close>.\<close>

fun digits :: "nat \<Rightarrow> string" where
  "digits n =
     (if n < 10 then [''0123456789'' ! n]
      else digits (n div 10) @ [''0123456789'' ! (n mod 10)])"

declare digits.simps [simp del]

definition Itoa :: "int \<Rightarrow> string" where
  "Itoa i = (if i < 0 then CHR ''-'' # digits (nat (- i)) else digits (nat i))"

text \<open>\<^verbatim>\<open>net.JoinHostPort\<close>: a host that contains a colon is put in brackets.\<close>

definition JoinHostPort :: "string \<Rightarrow> string \<Rightarrow> string" where
  "JoinHostPort host p =
     (if CHR '':'' \<in> set host then ''['' @ host @ '']:'' @ p else host @ '':'' @ p)"

text \<open>\<^verbatim>\<open>AddHostKey\<close> on a configuration that has no key of the same type yet.\<close>

definition AddHostKey :: "ServerConfig \<Rightarrow> Signer \<Rightarrow> ServerConfig" where
  "AddHostKey cfg key = cfg\<lparr>hostKeys := hostKeys cfg @ [key]\<rparr>"

text \<open>
  \<^verbatim>\<open>ssh.NewServerConn(conn, config)\<close>: the handshake runs inside the call, and the library
  calls the configuration's password callback for each password attempt, with the
  connection's remote address, the attempted user and the client's version.
\<close>

definition NewServerConn ::
  "World \<Rightarrow> Conn \<Rightarrow> ServerConfig \<Rightarrow>
     event list \<times> (error + (NewChannel chan \<times> Request chan))" where
  "NewServerConn w conn cfg =
     (let h = handshake w conn in
      (SSH_Handshake conn #
       map Log (concat (map (\<lambda>(u, p).
         fst (PasswordCallback_field cfg
                \<lparr>User = u, RemoteAddr = Conn_RemoteAddr conn,
                 ClientVersion = client_version h\<rparr> p)) (attempts h))),
       result h))"

section \<open>The program\<close>

subsection \<open>Host key provisioning\<close>

text \<open>
  Lines 28 to 51 of \<^verbatim>\<open>main\<close>: the events, and the host key, or \<open>None\<close> when
  \<^verbatim>\<open>log.Fatal\<close> has ended the process.
\<close>

definition main_host_key :: "Flags \<Rightarrow> World \<Rightarrow> event list \<times> Signer option" where
  "main_host_key fl w =
     (if host_key fl \<noteq> [] then
        (case ReadFile w (host_key fl) of
           Inl err \<Rightarrow>
             (File OpRead (host_key fl) # log_Fatal [''Failed to read host key:'', err], None)
         | Inr keyBytes \<Rightarrow>
             (case ParsePrivateKey w keyBytes of
                Inl err \<Rightarrow>
                  (File OpRead (host_key fl) # log_Fatal [''Failed to parse host key:'', err],
                   None)
              | Inr key \<Rightarrow> ([File OpRead (host_key fl)], Some key)))
      else
        (case ed25519_GenerateKey w None of
           (evs, Inl err) \<Rightarrow>
             (evs @ log_Fatal [''Failed to generate temporary private key:'', err], None)
         | (evs, Inr (pub, keyBytes)) \<Rightarrow>
             (case NewSignerFromSigner w (ed25519_PrivateKey keyBytes) of
                Inl err \<Rightarrow>
                  (evs @ log_Fatal [''Failed to parse generated private key:'', err], None)
              | Inr key \<Rightarrow>
                  (evs @
                   [Log (WithFields_Warning
                      [''sha256_fingerprint'' \<mapsto>
                         Array32Val (Sum256 w (Marshal (PublicKey key)))]
                      (''Using a temporary host key, consider creating a permanent one '' @
                       ''and passing it to -host_key''))],
                   Some key))))"

subsection \<open>The accept loop\<close>

text \<open>
  Lines 76 to 86: one iteration for each call of \<^verbatim>\<open>Accept()\<close> that returns. The loop has
  no \<^verbatim>\<open>break\<close> and no \<^verbatim>\<open>return\<close>; the only statement after a failed accept is
  \<^verbatim>\<open>continue\<close>.
\<close>

fun accept_loop :: "ServerConfig \<Rightarrow> (error + Conn) list \<Rightarrow> event list" where
  "accept_loop serverConfig [] = []"
| "accept_loop serverConfig (Inl err # rs) =
     Net_Accept #
     Log (log_Warning [''Failed to accept connection:'', err]) #
     accept_loop serverConfig rs"
| "accept_loop serverConfig (Inr conn # rs) =
     Net_Accept #
     Log (WithFields_Info [''client'' \<mapsto> AddrVal (Conn_RemoteAddr conn)]
            ''Client connected'') #
     Go (handleConn_task serverConfig conn) #
     accept_loop serverConfig rs"

subsection \<open>main\<close>

text \<open>Lines 53 to 65: the configuration shared by all connections.\<close>

definition main_serverConfig :: "Flags \<Rightarrow> Signer \<Rightarrow> ServerConfig" where
  "main_serverConfig fl key =
     AddHostKey
       \<lparr>ServerVersion = server_version fl,
        PasswordCallback_field = PasswordCallback,
        hostKeys = []\<rparr> key"

text \<open>Lines 24 to 26: the formatter is replaced when \<^verbatim>\<open>-json_logging\<close> is set.\<close>

definition json_setup :: "Flags \<Rightarrow> event list" where
  "json_setup fl = (if json_logging fl then [SetFormatter_JSON] else [])"

text \<open>
  The address given to \<^verbatim>\<open>net.Listen\<close> on line 67. \<^verbatim>\<open>int(*port)\<close> reads the 64 bits of
  the \<^verbatim>\<open>uint\<close> as a signed number.
\<close>

definition listen_addr :: "Flags \<Rightarrow> string" where
  "listen_addr fl = JoinHostPort (listen_address fl) (Itoa (sint (port fl)))"

text \<open>
  The events of the main goroutine. The deferred \<^verbatim>\<open>listener.Close()\<close> never runs: the
  loop does not end, and \<^verbatim>\<open>os.Exit\<close> runs no deferred call.
\<close>

definition main :: "Flags \<Rightarrow> World \<Rightarrow> event list" where
  "main fl w =
     json_setup fl @
     (case main_host_key fl w of
        (evs, None) \<Rightarrow> evs
      | (evs, Some key) \<Rightarrow>
          (let serverConfig = main_serverConfig fl key
           in evs @ Net_Listen ''tcp'' (listen_addr fl) #
              (case Listen w ''tcp'' (listen_addr fl) of
                 Inl err \<Rightarrow> log_Fatal [''Failed to listen:'', err]
               | Inr listener \<Rightarrow>
                   Log (WithFields_Info
                          [''listen_address'' \<mapsto> AddrVal (Listener_Addr listener)]
                          ''Listening'') #
                   accept_loop serverConfig (Accepts w))))"

subsection \<open>handleConn\<close>

text \<open>Lines 100 to 102: one \<^verbatim>\<open>go channel.Handle\<close> for each value of the stream.\<close>

fun range_channels :: "net_Addr \<Rightarrow> NewChannel list \<Rightarrow> event list" where
  "range_channels a [] = []"
| "range_channels a (newChannel # cs) =
     Go (channel_Handle a newChannel) # range_channels a cs"

text \<open>
  Lines 91 to 105, without the deferred call: the events, and whether the function
  returns. It does not return when the channel stream is never closed.
\<close>

definition handleConn_body :: "World \<Rightarrow> ServerConfig \<Rightarrow> Conn \<Rightarrow> event list \<times> bool" where
  "handleConn_body w serverConfig conn =
     (case NewServerConn w conn serverConfig of
        (hs, Inl err) \<Rightarrow>
          (hs @ [Log (log_Warning [''Failed to establish SSH connection:'', err])], True)
      | (hs, Inr (channels, requests)) \<Rightarrow>
          (hs @
           [Log (WithFields_Info [''client'' \<mapsto> AddrVal (Conn_RemoteAddr conn)]
                   ''SSH connection established''),
            Go (request_Handle (Conn_RemoteAddr conn) ''global'' requests)] @
           range_channels (Conn_RemoteAddr conn) (items channels) @
           (if is_closed channels
            then [Log (WithFields_Info [''client'' \<mapsto> AddrVal (Conn_RemoteAddr conn)]
                         ''Client disconnected'')]
            else []),
           is_closed channels))"

text \<open>\<^verbatim>\<open>defer conn.Close()\<close> (line 90) runs when the function returns, on either path.\<close>

definition handleConn :: "World \<Rightarrow> ServerConfig \<Rightarrow> Conn \<Rightarrow> event list \<times> bool" where
  "handleConn w serverConfig conn =
     (case handleConn_body w serverConfig conn of
        (evs, returned) \<Rightarrow> (if returned then evs @ [Conn_Close conn] else evs, returned))"

section \<open>Reading traces\<close>

text \<open>The entries logged, the tasks started and the exit codes of a trace, in order.\<close>

fun logs :: "event list \<Rightarrow> Entry list" where
  "logs [] = []"
| "logs (Log e # evs) = e # logs evs"
| "logs (ev # evs) = logs evs"

fun spawned :: "event list \<Rightarrow> task list" where
  "spawned [] = []"
| "spawned (Go t # evs) = t # spawned evs"
| "spawned (ev # evs) = spawned evs"

fun exits :: "event list \<Rightarrow> int list" where
  "exits [] = []"
| "exits (Exit n # evs) = n # exits evs"
| "exits (ev # evs) = exits evs"

text \<open>The connections among the results of \<^verbatim>\<open>Accept()\<close>.\<close>

fun accepted :: "(error + Conn) list \<Rightarrow> Conn list" where
  "accepted [] = []"
| "accepted (Inl err # rs) = accepted rs"
| "accepted (Inr conn # rs) = conn # accepted rs"

fun is_request_Handle :: "task \<Rightarrow> bool" where
  "is_request_Handle (request_Handle a category requests) = True"
| "is_request_Handle t = False"



definition is_disconnected :: "Entry \<Rightarrow> bool" where
  "is_disconnected e = (Message e = ''Client disconnected'')"

text \<open>
  A trace that ends on the fatal path: its last two events are the fatal entry with the
  message and \<^verbatim>\<open>os.Exit(1)\<close>, and before them the process has neither exited, nor called
  \<^verbatim>\<open>Accept()\<close>, nor started a task.
\<close>

definition fatal_exit :: "event list \<Rightarrow> string \<Rightarrow> bool" where
  "fatal_exit evs msg =
     (last evs = Exit 1 \<and>
      last (butlast evs) = Log \<lparr>Level = FatalLevel, Message = msg, Data = Map.empty\<rparr> \<and>
      exits evs = [1] \<and> Net_Accept \<notin> set evs \<and> spawned evs = [])"

text \<open>
  The entry that the callback logs for one password attempt (user, password) made during
  the handshake on a connection.
\<close>

definition auth_entry :: "Conn \<Rightarrow> Handshake \<Rightarrow> string \<times> bytes \<Rightarrow> Entry" where
  "auth_entry conn h a =
     hd (fst (PasswordCallback
               \<lparr>User = fst a, RemoteAddr = Conn_RemoteAddr conn,
                ClientVersion = client_version h\<rparr> (snd a)))"

text \<open>
  The events that concern one accepted connection, in the order in which they happen: those
  of the iteration of the accept loop that accepted it, then those of the task that the
  iteration started.
\<close>

definition connection_events :: "World \<Rightarrow> ServerConfig \<Rightarrow> Conn \<Rightarrow> event list" where
  "connection_events w serverConfig conn =
     accept_loop serverConfig [Inr conn] @ fst (handleConn w serverConfig conn)"

section \<open>Example inputs\<close>

text \<open>
  The default command line with a host key file, one client, and a world in which the key
  file exists and parses, key generation works, the address can be bound, the first
  \<^verbatim>\<open>Accept()\<close> fails and the second returns the client's connection. The handshake on
  every connection is the one given.
\<close>

definition example_Flags :: Flags where
  "example_Flags =
     \<lparr>host_key = ''host.key'', listen_address = ''localhost'', port = 2022,
      json_logging = False, server_version = ''SSH-2.0-sshesame''\<rparr>"

definition example_key :: Signer where
  "example_key = \<lparr>PublicKey = \<lparr>KeyType = ''ssh-ed25519'', Marshal = ''wire''\<rparr>\<rparr>"

definition example_Conn :: Conn where
  "example_Conn = Conn 7 (Addr ''tcp'' ''192.0.2.1:50000'')"

lift_definition example_digest :: array32 is "replicate 32 (CHR ''0'')"
  by simp

definition example_World :: "Handshake \<Rightarrow> World" where
  "example_World h =
     \<lparr>ReadFile = (\<lambda>p. if p = ''host.key'' then Inr ''PEM'' else Inl ''no such file''),
      ParsePrivateKey = (\<lambda>bs. if bs = ''PEM'' then Inr example_key else Inl ''no key found''),
      ed25519_keygen = (\<lambda>r. Inr (''pub'', ''priv'')),
      NewSignerFromSigner = (\<lambda>k. Inr example_key),
      Sum256 = (\<lambda>bs. example_digest),
      Listen = (\<lambda>n a. Inr (Listener (Addr n a))),
      Accepts = [Inl ''too many open files'', Inr example_Conn],
      handshake = (\<lambda>c. h)\<rparr>"

text \<open>A handshake that fails after one password attempt, and one that succeeds.\<close>

definition failing_Handshake :: Handshake where
  "failing_Handshake =
     \<lparr>client_version = ''SSH-2.0-Go'', attempts = [(''root'', ''hunter2'')],
      result = Inl ''EOF''\<rparr>"

definition session_Handshake :: "NewChannel list \<Rightarrow> bool \<Rightarrow> Handshake" where
  "session_Handshake cs closes =
     \<lparr>client_version = ''SSH-2.0-Go'', attempts = [(''root'', ''hunter2'')],
      result = Inr (\<lparr>items = cs, is_closed = closes\<rparr>, \<lparr>items = [], is_closed = closes\<rparr>)\<rparr>"

section \<open>Facts about traces\<close>

lemma logs_append: "logs (xs @ ys) = logs xs @ logs ys"
  by (induction xs rule: logs.induct) simp_all

lemma spawned_append: "spawned (xs @ ys) = spawned xs @ spawned ys"
  by (induction xs rule: spawned.induct) simp_all

lemma exits_append: "exits (xs @ ys) = exits xs @ exits ys"
  by (induction xs rule: exits.induct) simp_all

lemma logs_map_Log: "logs (map (Log \<circ> f) xs) = map f xs"
  by (induction xs) simp_all

lemma spawned_map_Log: "spawned (map Log es) = []"
  by (induction es) simp_all

lemma exits_map_Log: "exits (map Log es) = []"
  by (induction es) simp_all

subsection \<open>The accept loop\<close>

lemma accept_loop_append:
  "accept_loop cfg (xs @ ys) = accept_loop cfg xs @ accept_loop cfg ys"
  by (induction cfg xs rule: accept_loop.induct) simp_all

lemma accept_loop_exits: "exits (accept_loop cfg rs) = []"
  by (induction cfg rs rule: accept_loop.induct) simp_all

lemma accept_loop_calls:
  "length (filter (\<lambda>e. e = Net_Accept) (accept_loop cfg rs)) = length rs"
  by (induction cfg rs rule: accept_loop.induct) simp_all

lemma accept_loop_spawned:
  "spawned (accept_loop cfg rs) = map (handleConn_task cfg) (accepted rs)"
  by (induction cfg rs rule: accept_loop.induct) simp_all



subsection \<open>The handshake and handleConn\<close>

lemma range_channels_spawned:
  "spawned (range_channels a cs) = map (channel_Handle a) cs"
  by (induction cs) simp_all

lemma range_channels_logs: "logs (range_channels a cs) = []"
  by (induction cs) simp_all

lemma range_channels_exits: "exits (range_channels a cs) = []"
  by (induction cs) simp_all

lemma NewServerConn_result: "snd (NewServerConn w conn cfg) = result (handshake w conn)"
  by (simp add: NewServerConn_def Let_def)

lemma NewServerConn_spawned: "spawned (fst (NewServerConn w conn cfg)) = []"
  by (simp add: NewServerConn_def Let_def spawned_map_Log)

lemma NewServerConn_exits: "exits (fst (NewServerConn w conn cfg)) = []"
  by (simp add: NewServerConn_def Let_def exits_map_Log)

lemma NewServerConn_logs:
  "logs (fst (NewServerConn w conn (main_serverConfig fl key))) =
     map (auth_entry conn (handshake w conn)) (attempts (handshake w conn))"
proof -
  have "(\<lambda>(u, p). fst (PasswordCallback
            \<lparr>User = u, RemoteAddr = Conn_RemoteAddr conn,
             ClientVersion = client_version (handshake w conn)\<rparr> p)) =
        (\<lambda>a. [auth_entry conn (handshake w conn) a])"
    by (auto simp: PasswordCallback_def auth_entry_def)
  then show ?thesis
    by (simp add: NewServerConn_def Let_def main_serverConfig_def AddHostKey_def
          logs_map_Log)
qed

lemma auth_entry_not_disconnected:
  "filter is_disconnected (map (auth_entry conn h) as) = []"
  by (induction as)
     (simp_all add: is_disconnected_def auth_entry_def PasswordCallback_def
        WithFields_Info_def)

lemma handleConn_failed:
  "result (handshake w conn) = Inl err \<Longrightarrow>
   handleConn w cfg conn =
     (fst (NewServerConn w conn cfg) @
      [Log (log_Warning [''Failed to establish SSH connection:'', err]), Conn_Close conn],
      True)"
  using NewServerConn_result [of w conn cfg]
  by (cases "NewServerConn w conn cfg") (simp add: handleConn_def handleConn_body_def)

lemma handleConn_established:
  "result (handshake w conn) = Inr (chs, reqs) \<Longrightarrow>
   handleConn w cfg conn =
     (fst (NewServerConn w conn cfg) @
      [Log (WithFields_Info [''client'' \<mapsto> AddrVal (Conn_RemoteAddr conn)]
              ''SSH connection established''),
       Go (request_Handle (Conn_RemoteAddr conn) ''global'' reqs)] @
      range_channels (Conn_RemoteAddr conn) (items chs) @
      (if is_closed chs
       then [Log (WithFields_Info [''client'' \<mapsto> AddrVal (Conn_RemoteAddr conn)]
                    ''Client disconnected''),
             Conn_Close conn]
       else []),
      is_closed chs)"
  using NewServerConn_result [of w conn cfg]
  by (cases "NewServerConn w conn cfg") (simp add: handleConn_def handleConn_body_def)

lemma handleConn_exits: "exits (fst (handleConn w cfg conn)) = []"
proof (cases "result (handshake w conn)")
  case (Inl err)
  then show ?thesis
    by (simp add: handleConn_failed exits_append NewServerConn_exits)
next
  case (Inr streams)
  then show ?thesis
    by (cases streams)
       (simp add: handleConn_established exits_append NewServerConn_exits
          range_channels_exits)
qed

lemma handleConn_logs_failed:
  "result (handshake w conn) = Inl err \<Longrightarrow>
   logs (fst (handleConn w (main_serverConfig fl key) conn)) =
     map (auth_entry conn (handshake w conn)) (attempts (handshake w conn)) @
     [log_Warning [''Failed to establish SSH connection:'', err]]"
  by (simp add: handleConn_failed logs_append NewServerConn_logs)

lemma handleConn_logs_established:
  "result (handshake w conn) = Inr (chs, reqs) \<Longrightarrow>
   logs (fst (handleConn w (main_serverConfig fl key) conn)) =
     map (auth_entry conn (handshake w conn)) (attempts (handshake w conn)) @
     WithFields_Info [''client'' \<mapsto> AddrVal (Conn_RemoteAddr conn)]
       ''SSH connection established'' #
     (if is_closed chs
      then [WithFields_Info [''client'' \<mapsto> AddrVal (Conn_RemoteAddr conn)]
              ''Client disconnected'']
      else [])"
  by (simp add: handleConn_established logs_append NewServerConn_logs range_channels_logs)

lemma handleConn_spawned_established:
  "result (handshake w conn) = Inr (chs, reqs) \<Longrightarrow>
   spawned (fst (handleConn w cfg conn)) =
     request_Handle (Conn_RemoteAddr conn) ''global'' reqs #
     map (channel_Handle (Conn_RemoteAddr conn)) (items chs)"
  by (simp add: handleConn_established spawned_append NewServerConn_spawned
        range_channels_spawned)

lemma handleConn_spawned_failed:
  "result (handshake w conn) = Inl err \<Longrightarrow> spawned (fst (handleConn w cfg conn)) = []"
  by (simp add: handleConn_failed spawned_append NewServerConn_spawned)

subsection \<open>main\<close>

lemma main_host_key_handshake:
  "main_host_key fl (w\<lparr>handshake := h\<rparr>) = main_host_key fl w"
  by (simp add: main_host_key_def ed25519_GenerateKey_def
        cong: sum.case_cong prod.case_cong)

lemma main_handshake: "main fl (w\<lparr>handshake := h\<rparr>) = main fl w"
  by (simp add: main_def main_host_key_handshake Let_def
        cong: sum.case_cong prod.case_cong option.case_cong)

lemma default_listen_addr: "listen_addr example_Flags = ''localhost:2022''"
  by (simp add: listen_addr_def example_Flags_def JoinHostPort_def Itoa_def digits.simps)

lemma ipv6_listen_addr:
  "listen_addr (example_Flags\<lparr>listen_address := ''::1'', port := 22\<rparr>) = ''[::1]:22''"
  by (simp add: listen_addr_def example_Flags_def JoinHostPort_def Itoa_def digits.simps)

lemma main_no_key:
  "main_host_key fl w = (evs, None) \<Longrightarrow> main fl w = json_setup fl @ evs"
  by (simp add: main_def)

lemma main_listen_failed:
  "main_host_key fl w = (evs, Some key) \<Longrightarrow> Listen w ''tcp'' (listen_addr fl) = Inl err \<Longrightarrow>
   main fl w = json_setup fl @ evs @ Net_Listen ''tcp'' (listen_addr fl) #
     log_Fatal [''Failed to listen:'', err]"
  by (simp add: main_def Let_def)

lemma main_listening:
  "main_host_key fl w = (evs, Some key) \<Longrightarrow> Listen w ''tcp'' (listen_addr fl) = Inr l \<Longrightarrow>
   main fl w = json_setup fl @ evs @
     [Net_Listen ''tcp'' (listen_addr fl),
      Log (WithFields_Info [''listen_address'' \<mapsto> AddrVal (Listener_Addr l)] ''Listening'')] @
     accept_loop (main_serverConfig fl key) (Accepts w)"
  by (simp add: main_def Let_def)

lemma key_read_failed:
  "host_key fl \<noteq> [] \<Longrightarrow> ReadFile w (host_key fl) = Inl err \<Longrightarrow>
   main_host_key fl w =
     (File OpRead (host_key fl) # log_Fatal [''Failed to read host key:'', err], None)"
  by (simp add: main_host_key_def)

lemma key_parse_failed:
  "host_key fl \<noteq> [] \<Longrightarrow> ReadFile w (host_key fl) = Inr keyBytes \<Longrightarrow>
   ParsePrivateKey w keyBytes = Inl err \<Longrightarrow>
   main_host_key fl w =
     (File OpRead (host_key fl) # log_Fatal [''Failed to parse host key:'', err], None)"
  by (simp add: main_host_key_def)


lemma key_generation_failed:
  "host_key fl = [] \<Longrightarrow> ed25519_keygen w crypto_rand_Reader = Inl err \<Longrightarrow>
   main_host_key fl w =
     (GenerateKey_from crypto_rand_Reader #
      log_Fatal [''Failed to generate temporary private key:'', err], None)"
  by (simp add: main_host_key_def ed25519_GenerateKey_def rand_source_def)

lemma key_wrapping_failed:
  "host_key fl = [] \<Longrightarrow> ed25519_keygen w crypto_rand_Reader = Inr (pub, priv) \<Longrightarrow>
   NewSignerFromSigner w (ed25519_PrivateKey priv) = Inl err \<Longrightarrow>
   main_host_key fl w =
     (GenerateKey_from crypto_rand_Reader #
      log_Fatal [''Failed to parse generated private key:'', err], None)"
  by (simp add: main_host_key_def ed25519_GenerateKey_def rand_source_def)


text \<open>When a key comes out, the events before it have one of two shapes.\<close>

lemma key_ok_cases:
  assumes "main_host_key fl w = (evs, Some key)"
  shows "(host_key fl \<noteq> [] \<and> evs = [File OpRead (host_key fl)]) \<or>
         (host_key fl = [] \<and>
          (\<exists>pub priv. ed25519_keygen w crypto_rand_Reader = Inr (pub, priv) \<and>
             NewSignerFromSigner w (ed25519_PrivateKey priv) = Inr key \<and>
             evs = [GenerateKey_from crypto_rand_Reader,
                    Log (WithFields_Warning
                      [''sha256_fingerprint'' \<mapsto>
                         Array32Val (Sum256 w (Marshal (PublicKey key)))]
                      (''Using a temporary host key, consider creating a permanent one '' @
                       ''and passing it to -host_key''))]))"
  using assms
  by (auto simp: main_host_key_def ed25519_GenerateKey_def rand_source_def
        split: if_splits sum.splits prod.splits)

lemmas fatal_exit_simps =
  fatal_exit_def log_Fatal_def Sprint_def json_setup_def exits_append spawned_append
  butlast_append



lemma main_listening_calls:
  assumes k: "main_host_key fl w = (evs, Some key)"
    and l: "Listen w ''tcp'' (listen_addr fl) = Inr l"
  shows "length (filter (\<lambda>e. e = Net_Accept) (main fl w)) = length (Accepts w)"
    and "exits (main fl w) = []"
proof -
  have quiet: "filter (\<lambda>e. e = Net_Accept) evs = []" "exits evs = []"
    using key_ok_cases [OF k] by auto
  show "length (filter (\<lambda>e. e = Net_Accept) (main fl w)) = length (Accepts w)"
    using quiet by (simp add: main_listening [OF k l] json_setup_def accept_loop_calls)
  show "exits (main fl w) = []"
    using quiet
    by (simp add: main_listening [OF k l] json_setup_def exits_append accept_loop_exits)
qed



section \<open>The authentication policy\<close>

text \<open>
  C1. For every connection metadata and every password (the empty one included), the
  callback returns nil permissions and a nil error, that is "accepted", and logs exactly
  one entry: at info level, with the message of acceptance, and with exactly the four fields
  client, user, password and version, holding the remote address, the user name, the
  password and the client version it was called with.
\<close>

theorem PasswordCallback_accepts_and_logs:
  "snd (PasswordCallback conn password) = (None, None) \<and>
   (\<exists>e. fst (PasswordCallback conn password) = [e] \<and>
        Level e = InfoLevel \<and>
        Message e = ''Password authentication accepted'' \<and>
        dom (Data e) = {''client'', ''user'', ''password'', ''version''} \<and>
        Data e ''client'' = Some (AddrVal (RemoteAddr conn)) \<and>
        Data e ''user'' = Some (StringVal (User conn)) \<and>
        Data e ''password'' = Some (StringVal password) \<and>
        Data e ''version'' = Some (StringVal (ClientVersion conn)))"
  by (auto simp: PasswordCallback_def WithFields_Info_def)

theorem PasswordCallback_accepts_and_logs_witness:
  "snd (PasswordCallback
          \<lparr>User = ''root'', RemoteAddr = Addr ''tcp'' ''192.0.2.1:50000'',
           ClientVersion = ''SSH-2.0-Go''\<rparr> []) = (None, None) \<and>
   (\<exists>e. fst (PasswordCallback
          \<lparr>User = ''root'', RemoteAddr = Addr ''tcp'' ''192.0.2.1:50000'',
           ClientVersion = ''SSH-2.0-Go''\<rparr> []) = [e] \<and>
        Data e ''user'' = Some (StringVal ''root'') \<and>
        Data e ''password'' = Some (StringVal []))"
proof -
  obtain e where
    "fst (PasswordCallback
          \<lparr>User = ''root'', RemoteAddr = Addr ''tcp'' ''192.0.2.1:50000'',
           ClientVersion = ''SSH-2.0-Go''\<rparr> []) = [e]"
    "Data e ''user'' = Some (StringVal ''root'')"
    "Data e ''password'' = Some (StringVal [])"
    and "snd (PasswordCallback
          \<lparr>User = ''root'', RemoteAddr = Addr ''tcp'' ''192.0.2.1:50000'',
           ClientVersion = ''SSH-2.0-Go''\<rparr> []) = (None, None)"
    using PasswordCallback_accepts_and_logs
      [of "\<lparr>User = ''root'', RemoteAddr = Addr ''tcp'' ''192.0.2.1:50000'',
            ClientVersion = ''SSH-2.0-Go''\<rparr>" "[]"]
    by fastforce
  then show ?thesis by blast
qed

section \<open>Tasks\<close>

text \<open>
  C2, as the code has it. The accept loop starts one task for each accepted connection,
  \<^verbatim>\<open>handleConn\<close> with the shared configuration and that connection, and none for a failed
  accept. A connection whose handshake succeeds starts, from its own task, exactly one
  further task, the dispatch of global requests; the dispatch of channels is the loop of
  \<^verbatim>\<open>handleConn\<close> itself, which starts one task for each channel of the stream, in the
  order of the stream, each with the remote address and its channel: one plus the number of
  channels in all. The loop only starts the handlers, so every channel of the stream gets
  its task whatever the handlers of earlier channels do. A connection whose handshake fails
  starts no task.
\<close>

theorem tasks_started:
  "spawned (accept_loop cfg rs) = map (handleConn_task cfg) (accepted rs) \<and>
   (result (handshake w conn) = Inr (chs, reqs) \<longrightarrow>
      spawned (fst (handleConn w cfg conn)) =
        request_Handle (Conn_RemoteAddr conn) ''global'' reqs #
        map (channel_Handle (Conn_RemoteAddr conn)) (items chs) \<and>
      length (spawned (fst (handleConn w cfg conn))) = 1 + length (items chs)) \<and>
   (result (handshake w conn) = Inl err \<longrightarrow> spawned (fst (handleConn w cfg conn)) = [])"
  by (simp add: accept_loop_spawned handleConn_spawned_established
        handleConn_spawned_failed)

theorem tasks_started_witness:
  "result (handshake
      (example_World (session_Handshake [NewChannel ''session'' [], NewChannel ''session'' []] True))
      example_Conn) =
     Inr (\<lparr>items = [NewChannel ''session'' [], NewChannel ''session'' []], is_closed = True\<rparr>,
          \<lparr>items = [], is_closed = True\<rparr>) \<and>
   result (handshake (example_World failing_Handshake) example_Conn) = Inl ''EOF'' \<and>
   length (spawned (fst (handleConn
      (example_World (session_Handshake [NewChannel ''session'' [], NewChannel ''session'' []] True))
      (main_serverConfig example_Flags example_key) example_Conn))) = 3 \<and>
   spawned (fst (handleConn (example_World failing_Handshake)
      (main_serverConfig example_Flags example_key) example_Conn)) = []"
  using tasks_started
    [of "main_serverConfig example_Flags example_key" "[]"
        "example_World
           (session_Handshake [NewChannel ''session'' [], NewChannel ''session'' []] True)"
        example_Conn
        "\<lparr>items = [NewChannel ''session'' [], NewChannel ''session'' []], is_closed = True\<rparr>"
        "\<lparr>items = [], is_closed = True\<rparr>" "''EOF''"]
    tasks_started
    [of "main_serverConfig example_Flags example_key" "[]"
        "example_World failing_Handshake" example_Conn
        "\<lparr>items = [], is_closed = True\<rparr>" "\<lparr>items = [], is_closed = True\<rparr>" "''EOF''"]
  by (simp add: example_World_def session_Handshake_def failing_Handshake_def)

theorem two_dispatch_tasks_counterexample:
  "result (handshake
      (example_World
         \<lparr>client_version = ''SSH-2.0-Go'', attempts = [(''root'', ''hunter2'')],
          result = Inr (\<lparr>items = [], is_closed = True\<rparr>, \<lparr>items = [], is_closed = True\<rparr>)\<rparr>)
      example_Conn) =
     Inr (\<lparr>items = [], is_closed = True\<rparr>, \<lparr>items = [], is_closed = True\<rparr>) \<and>
   spawned (fst (handleConn
      (example_World
         \<lparr>client_version = ''SSH-2.0-Go'', attempts = [(''root'', ''hunter2'')],
          result = Inr (\<lparr>items = [], is_closed = True\<rparr>, \<lparr>items = [], is_closed = True\<rparr>)\<rparr>)
      (main_serverConfig example_Flags example_key) example_Conn)) =
     [request_Handle (Addr ''tcp'' ''192.0.2.1:50000'') ''global''
        \<lparr>items = [], is_closed = True\<rparr>] \<and>
   length (spawned (fst (handleConn
      (example_World
         \<lparr>client_version = ''SSH-2.0-Go'', attempts = [(''root'', ''hunter2'')],
          result = Inr (\<lparr>items = [], is_closed = True\<rparr>, \<lparr>items = [], is_closed = True\<rparr>)\<rparr>)
      (main_serverConfig example_Flags example_key) example_Conn))) \<noteq> 2 + 0"
  by (simp add: example_World_def example_Conn_def handleConn_def handleConn_body_def
        NewServerConn_def main_serverConfig_def AddHostKey_def PasswordCallback_def)

section \<open>A failed handshake\<close>

text \<open>
  C3. \<^verbatim>\<open>handleConn\<close> ends with closing the connection whenever it returns. When the
  handshake fails, it does return, and after the events of the handshake itself it does
  exactly two things: it logs one entry at warning level, with the error, and it closes the
  connection. It starts no task and does not end the process. What the handshake on one
  connection does changes neither the events of \<^verbatim>\<open>handleConn\<close> on another connection nor
  the events of \<^verbatim>\<open>main\<close>, where the listener lives.
\<close>

theorem handshake_failure_is_local:
  "(snd (handleConn w cfg conn) \<longrightarrow>
      last (fst (handleConn w cfg conn)) = Conn_Close conn) \<and>
   (result (handshake w conn) = Inl err \<longrightarrow>
      handleConn w cfg conn =
        (fst (NewServerConn w conn cfg) @
         [Log \<lparr>Level = WarnLevel,
               Message = ''Failed to establish SSH connection:'' @ err,
               Data = Map.empty\<rparr>,
          Conn_Close conn], True) \<and>
      spawned (fst (handleConn w cfg conn)) = [] \<and>
      exits (fst (handleConn w cfg conn)) = []) \<and>
   (conn' \<noteq> conn \<longrightarrow>
      handleConn (w\<lparr>handshake := (handshake w)(conn := h)\<rparr>) cfg conn' =
      handleConn w cfg conn') \<and>
   main fl (w\<lparr>handshake := (handshake w)(conn := h)\<rparr>) = main fl w"
proof -
  have close: "snd (handleConn w cfg conn) \<longrightarrow>
      last (fst (handleConn w cfg conn)) = Conn_Close conn"
    by (cases "handleConn_body w cfg conn") (simp add: handleConn_def)
  have failed: "result (handshake w conn) = Inl err \<longrightarrow>
      handleConn w cfg conn =
        (fst (NewServerConn w conn cfg) @
         [Log \<lparr>Level = WarnLevel,
               Message = ''Failed to establish SSH connection:'' @ err,
               Data = Map.empty\<rparr>,
          Conn_Close conn], True) \<and>
      spawned (fst (handleConn w cfg conn)) = [] \<and>
      exits (fst (handleConn w cfg conn)) = []"
    by (simp add: handleConn_failed log_Warning_def Sprint_def spawned_append
          exits_append NewServerConn_spawned NewServerConn_exits)
  have other: "conn' \<noteq> conn \<longrightarrow>
      handleConn (w\<lparr>handshake := (handshake w)(conn := h)\<rparr>) cfg conn' =
      handleConn w cfg conn'"
    by (simp add: handleConn_def handleConn_body_def NewServerConn_def)
  show ?thesis
    using close failed other main_handshake by blast
qed

theorem handshake_failure_is_local_witness:
  "result (handshake (example_World failing_Handshake) example_Conn) = Inl ''EOF'' \<and>
   Conn 8 (Addr ''tcp'' ''192.0.2.2:50000'') \<noteq> example_Conn \<and>
   snd (handleConn (example_World failing_Handshake)
          (main_serverConfig example_Flags example_key) example_Conn) \<and>
   last (fst (handleConn (example_World failing_Handshake)
          (main_serverConfig example_Flags example_key) example_Conn)) =
     Conn_Close example_Conn \<and>
   exits (fst (handleConn (example_World failing_Handshake)
          (main_serverConfig example_Flags example_key) example_Conn)) = []"
proof -
  note local = handshake_failure_is_local
    [of "example_World failing_Handshake" "main_serverConfig example_Flags example_key"
        example_Conn "''EOF''" "Conn 8 (Addr ''tcp'' ''192.0.2.2:50000'')"
        "session_Handshake [] True" example_Flags]
  have failed: "result (handshake (example_World failing_Handshake) example_Conn) = Inl ''EOF''"
    by (simp add: example_World_def failing_Handshake_def)
  have other: "Conn 8 (Addr ''tcp'' ''192.0.2.2:50000'') \<noteq> example_Conn"
    by (simp add: example_Conn_def)
  have returned: "snd (handleConn (example_World failing_Handshake)
          (main_serverConfig example_Flags example_key) example_Conn)"
    using local failed by simp
  show ?thesis
    using local failed other returned by blast
qed

section \<open>Host key provisioning\<close>



section \<open>The accept loop survives errors\<close>

text \<open>
  C5. Whatever the results of \<^verbatim>\<open>Accept()\<close> before and after it, a failed accept makes the
  loop log one entry at warning level with the error, and the loop then goes on with the
  results that follow exactly as it would have without the failure; a connection that
  arrives after any results is logged and given its task. The loop calls \<^verbatim>\<open>Accept()\<close> once
  for each result there is, so it never stops by itself, and it never ends the process; no
  connection task ends the process either, and how handshakes end does not change the events
  of \<^verbatim>\<open>main\<close>. Once the listener is bound, \<^verbatim>\<open>main\<close> calls \<^verbatim>\<open>Accept()\<close> once for each
  result and does not exit.
\<close>

theorem accept_loop_continues:
  "accept_loop cfg (before @ Inl err # after) =
     accept_loop cfg before @
     [Net_Accept,
      Log \<lparr>Level = WarnLevel, Message = ''Failed to accept connection:'' @ err,
           Data = Map.empty\<rparr>] @
     accept_loop cfg after \<and>
   accept_loop cfg (before @ Inr conn # after) =
     accept_loop cfg before @
     [Net_Accept,
      Log \<lparr>Level = InfoLevel, Message = ''Client connected'',
           Data = [''client'' \<mapsto> AddrVal (Conn_RemoteAddr conn)]\<rparr>,
      Go (handleConn_task cfg conn)] @
     accept_loop cfg after \<and>
   length (filter (\<lambda>e. e = Net_Accept) (accept_loop cfg rs)) = length rs \<and>
   exits (accept_loop cfg rs) = [] \<and>
   exits (fst (handleConn w cfg conn)) = [] \<and>
   main fl (w\<lparr>handshake := h\<rparr>) = main fl w \<and>
   (main_host_key fl w = (evs, Some key) \<and> Listen w ''tcp'' (listen_addr fl) = Inr l \<longrightarrow>
      length (filter (\<lambda>e. e = Net_Accept) (main fl w)) = length (Accepts w) \<and>
      exits (main fl w) = [])"
  using main_listening_calls [of fl w evs key l]
  by (simp add: accept_loop_append log_Warning_def Sprint_def WithFields_Info_def
        accept_loop_calls accept_loop_exits handleConn_exits main_handshake)

theorem accept_loop_continues_witness:
  "main_host_key example_Flags (example_World failing_Handshake) =
     ([File OpRead ''host.key''], Some example_key) \<and>
   Listen (example_World failing_Handshake) ''tcp'' (listen_addr example_Flags) =
     Inr (Listener (Addr ''tcp'' (listen_addr example_Flags))) \<and>
   Accepts (example_World failing_Handshake) =
     [Inl ''too many open files'', Inr example_Conn] \<and>
   length (filter (\<lambda>e. e = Net_Accept) (main example_Flags (example_World failing_Handshake))) =
     2 \<and>
   exits (main example_Flags (example_World failing_Handshake)) = []"
proof -
  have key: "main_host_key example_Flags (example_World failing_Handshake) =
     ([File OpRead ''host.key''], Some example_key)"
    by (simp add: main_host_key_def example_Flags_def example_World_def)
  have bound: "Listen (example_World failing_Handshake) ''tcp'' (listen_addr example_Flags) =
     Inr (Listener (Addr ''tcp'' (listen_addr example_Flags)))"
    by (simp add: example_World_def)
  have accepts: "Accepts (example_World failing_Handshake) =
     [Inl ''too many open files'', Inr example_Conn]"
    by (simp add: example_World_def)
  show ?thesis
    using accept_loop_continues
      [where fl = example_Flags and w = "example_World failing_Handshake"
         and evs = "[File OpRead ''host.key'']" and key = example_key
         and l = "Listener (Addr ''tcp'' (listen_addr example_Flags))"]
      key bound accepts
    by simp
qed

section \<open>Fatal startup errors\<close>

text \<open>
  C6. Each startup error ends \<^verbatim>\<open>main\<close> on the fatal path: a host key file that cannot be
  read, host key bytes that do not parse, a failure of key generation, a generated key that
  cannot be wrapped as a signer, and, once there is a key, a failure to bind the listen
  address. In each case the last two events of \<^verbatim>\<open>main\<close> are the fatal entry with the
  error and \<^verbatim>\<open>os.Exit(1)\<close>, and the process has not called \<^verbatim>\<open>Accept()\<close> nor started a
  task.
\<close>

theorem fatal_startup_errors:
  "(host_key fl \<noteq> [] \<and> ReadFile w (host_key fl) = Inl err \<longrightarrow>
      fatal_exit (main fl w) (''Failed to read host key:'' @ err)) \<and>
   (host_key fl \<noteq> [] \<and> ReadFile w (host_key fl) = Inr keyBytes \<and>
    ParsePrivateKey w keyBytes = Inl err \<longrightarrow>
      fatal_exit (main fl w) (''Failed to parse host key:'' @ err)) \<and>
   (host_key fl = [] \<and> ed25519_keygen w crypto_rand_Reader = Inl err \<longrightarrow>
      fatal_exit (main fl w) (''Failed to generate temporary private key:'' @ err)) \<and>
   (host_key fl = [] \<and> ed25519_keygen w crypto_rand_Reader = Inr (pub, priv) \<and>
    NewSignerFromSigner w (ed25519_PrivateKey priv) = Inl err \<longrightarrow>
      fatal_exit (main fl w) (''Failed to parse generated private key:'' @ err)) \<and>
   (main_host_key fl w = (evs, Some key) \<and> Listen w ''tcp'' (listen_addr fl) = Inl err \<longrightarrow>
      fatal_exit (main fl w) (''Failed to listen:'' @ err))"
proof -
  have rd: "fatal_exit (main fl w) (''Failed to read host key:'' @ err)"
    if "host_key fl \<noteq> []" "ReadFile w (host_key fl) = Inl err"
    using that by (simp add: main_no_key [OF key_read_failed] fatal_exit_simps)
  have parse: "fatal_exit (main fl w) (''Failed to parse host key:'' @ err)"
    if "host_key fl \<noteq> []" "ReadFile w (host_key fl) = Inr keyBytes"
       "ParsePrivateKey w keyBytes = Inl err"
    using that by (simp add: main_no_key [OF key_parse_failed] fatal_exit_simps)
  have gen: "fatal_exit (main fl w) (''Failed to generate temporary private key:'' @ err)"
    if "host_key fl = []" "ed25519_keygen w crypto_rand_Reader = Inl err"
    using that by (simp add: main_no_key [OF key_generation_failed] fatal_exit_simps)
  have wrap: "fatal_exit (main fl w) (''Failed to parse generated private key:'' @ err)"
    if "host_key fl = []" "ed25519_keygen w crypto_rand_Reader = Inr (pub, priv)"
       "NewSignerFromSigner w (ed25519_PrivateKey priv) = Inl err"
    using that by (simp add: main_no_key [OF key_wrapping_failed] fatal_exit_simps)
  have lis: "fatal_exit (main fl w) (''Failed to listen:'' @ err)"
    if k: "main_host_key fl w = (evs, Some key)"
    and l: "Listen w ''tcp'' (listen_addr fl) = Inl err"
  proof -
    have quiet: "exits evs = []" "Net_Accept \<notin> set evs" "spawned evs = []"
      using key_ok_cases [OF k] by auto
    show ?thesis
      using quiet by (simp add: main_listen_failed [OF k l] fatal_exit_simps)
  qed
  show ?thesis
    using rd parse gen wrap lis by blast
qed

theorem fatal_startup_errors_witness:
  "fatal_exit
     (main example_Flags
        ((example_World failing_Handshake)\<lparr>ReadFile := \<lambda>p. Inl ''permission denied''\<rparr>))
     ''Failed to read host key:permission denied'' \<and>
   fatal_exit
     (main example_Flags
        ((example_World failing_Handshake)\<lparr>ParsePrivateKey := \<lambda>bs. Inl ''no key found''\<rparr>))
     ''Failed to parse host key:no key found'' \<and>
   fatal_exit
     (main (example_Flags\<lparr>host_key := []\<rparr>)
        ((example_World failing_Handshake)\<lparr>ed25519_keygen := \<lambda>r. Inl ''no entropy''\<rparr>))
     ''Failed to generate temporary private key:no entropy'' \<and>
   fatal_exit
     (main (example_Flags\<lparr>host_key := []\<rparr>)
        ((example_World failing_Handshake)\<lparr>NewSignerFromSigner := \<lambda>k. Inl ''unsupported''\<rparr>))
     ''Failed to parse generated private key:unsupported'' \<and>
   fatal_exit
     (main example_Flags
        ((example_World failing_Handshake)\<lparr>Listen := \<lambda>n a. Inl ''address already in use''\<rparr>))
     ''Failed to listen:address already in use''"
proof -
  have rd: "fatal_exit
     (main example_Flags
        ((example_World failing_Handshake)\<lparr>ReadFile := \<lambda>p. Inl ''permission denied''\<rparr>))
     ''Failed to read host key:permission denied''"
    using fatal_startup_errors
      [where fl = example_Flags
         and w = "(example_World failing_Handshake)\<lparr>ReadFile := \<lambda>p. Inl ''permission denied''\<rparr>"
         and err = "''permission denied''"]
    by (simp add: example_Flags_def)
  have parse: "fatal_exit
     (main example_Flags
        ((example_World failing_Handshake)\<lparr>ParsePrivateKey := \<lambda>bs. Inl ''no key found''\<rparr>))
     ''Failed to parse host key:no key found''"
    using fatal_startup_errors
      [where fl = example_Flags
         and w = "(example_World failing_Handshake)\<lparr>ParsePrivateKey := \<lambda>bs. Inl ''no key found''\<rparr>"
         and keyBytes = "''PEM''" and err = "''no key found''"]
    by (simp add: example_Flags_def example_World_def)
  have gen: "fatal_exit
     (main (example_Flags\<lparr>host_key := []\<rparr>)
        ((example_World failing_Handshake)\<lparr>ed25519_keygen := \<lambda>r. Inl ''no entropy''\<rparr>))
     ''Failed to generate temporary private key:no entropy''"
    using fatal_startup_errors
      [where fl = "example_Flags\<lparr>host_key := []\<rparr>"
         and w = "(example_World failing_Handshake)\<lparr>ed25519_keygen := \<lambda>r. Inl ''no entropy''\<rparr>"
         and err = "''no entropy''"]
    by simp
  have wrap: "fatal_exit
     (main (example_Flags\<lparr>host_key := []\<rparr>)
        ((example_World failing_Handshake)\<lparr>NewSignerFromSigner := \<lambda>k. Inl ''unsupported''\<rparr>))
     ''Failed to parse generated private key:unsupported''"
    using fatal_startup_errors
      [where fl = "example_Flags\<lparr>host_key := []\<rparr>"
         and w = "(example_World failing_Handshake)\<lparr>NewSignerFromSigner := \<lambda>k. Inl ''unsupported''\<rparr>"
         and pub = "''pub''" and priv = "''priv''" and err = "''unsupported''"]
    by (simp add: example_World_def)
  have key: "main_host_key example_Flags
      ((example_World failing_Handshake)\<lparr>Listen := \<lambda>n a. Inl ''address already in use''\<rparr>) =
     ([File OpRead ''host.key''], Some example_key)"
    by (simp add: main_host_key_def example_Flags_def example_World_def)
  have lis: "fatal_exit
     (main example_Flags
        ((example_World failing_Handshake)\<lparr>Listen := \<lambda>n a. Inl ''address already in use''\<rparr>))
     ''Failed to listen:address already in use''"
    using fatal_startup_errors
      [where fl = example_Flags
         and w = "(example_World failing_Handshake)\<lparr>Listen := \<lambda>n a. Inl ''address already in use''\<rparr>"
         and evs = "[File OpRead ''host.key'']" and key = example_key
         and err = "''address already in use''"]
      key
    by simp
  show ?thesis
    using rd parse gen wrap lis by blast
qed

section \<open>An established connection\<close>

text \<open>
  C7. Take a connection whose handshake succeeded. The SSH library ends the channel stream
  when the socket is closed; the stream being closed is what \<^verbatim>\<open>handleConn\<close> sees of it.
  When the channel stream is closed, \<^verbatim>\<open>handleConn\<close> returns, and its last two events are
  the info entry "Client disconnected", whose field \<^verbatim>\<open>client\<close> is the connection's remote
  address, and the close of the connection. With the configuration of \<^verbatim>\<open>main\<close>, that entry
  is the last entry the task logs and the only one with this message. As long as the stream
  is not closed, no such entry is logged.
\<close>

theorem client_disconnected_logged:
  assumes "result (handshake w conn) = Inr (chs, reqs)"
  shows "(is_closed chs \<longrightarrow>
            snd (handleConn w cfg conn) \<and>
            (\<exists>pre. fst (handleConn w cfg conn) =
               pre @
               [Log \<lparr>Level = InfoLevel, Message = ''Client disconnected'',
                     Data = [''client'' \<mapsto> AddrVal (Conn_RemoteAddr conn)]\<rparr>,
                Conn_Close conn]) \<and>
            last (logs (fst (handleConn w (main_serverConfig fl key) conn))) =
              \<lparr>Level = InfoLevel, Message = ''Client disconnected'',
               Data = [''client'' \<mapsto> AddrVal (Conn_RemoteAddr conn)]\<rparr>) \<and>
         filter is_disconnected (logs (fst (handleConn w (main_serverConfig fl key) conn))) =
           (if is_closed chs
            then [\<lparr>Level = InfoLevel, Message = ''Client disconnected'',
                   Data = [''client'' \<mapsto> AddrVal (Conn_RemoteAddr conn)]\<rparr>]
            else [])"
proof -
  have ret: "is_closed chs \<longrightarrow>
      snd (handleConn w cfg conn) \<and>
      (\<exists>pre. fst (handleConn w cfg conn) =
         pre @
         [Log \<lparr>Level = InfoLevel, Message = ''Client disconnected'',
               Data = [''client'' \<mapsto> AddrVal (Conn_RemoteAddr conn)]\<rparr>,
          Conn_Close conn])"
    using assms by (simp add: handleConn_established WithFields_Info_def)
  have once: "filter is_disconnected
        (logs (fst (handleConn w (main_serverConfig fl key) conn))) =
      (if is_closed chs
       then [\<lparr>Level = InfoLevel, Message = ''Client disconnected'',
              Data = [''client'' \<mapsto> AddrVal (Conn_RemoteAddr conn)]\<rparr>]
       else [])"
    by (simp add: handleConn_logs_established [OF assms] auth_entry_not_disconnected
          WithFields_Info_def is_disconnected_def)
  have final: "is_closed chs \<longrightarrow>
      last (logs (fst (handleConn w (main_serverConfig fl key) conn))) =
        \<lparr>Level = InfoLevel, Message = ''Client disconnected'',
         Data = [''client'' \<mapsto> AddrVal (Conn_RemoteAddr conn)]\<rparr>"
    by (simp add: handleConn_logs_established [OF assms] WithFields_Info_def)
  show ?thesis
    using ret once final by blast
qed

theorem client_disconnected_logged_witness:
  "result (handshake (example_World (session_Handshake [NewChannel ''session'' []] True))
      example_Conn) =
     Inr (\<lparr>items = [NewChannel ''session'' []], is_closed = True\<rparr>,
          \<lparr>items = [], is_closed = True\<rparr>) \<and>
   is_closed \<lparr>items = [NewChannel ''session'' []], is_closed = True\<rparr> \<and>
   snd (handleConn (example_World (session_Handshake [NewChannel ''session'' []] True))
          (main_serverConfig example_Flags example_key) example_Conn) \<and>
   last (logs (fst (handleConn
          (example_World (session_Handshake [NewChannel ''session'' []] True))
          (main_serverConfig example_Flags example_key) example_Conn))) =
     \<lparr>Level = InfoLevel, Message = ''Client disconnected'',
      Data = [''client'' \<mapsto> AddrVal (Conn_RemoteAddr example_Conn)]\<rparr>"
proof -
  have established:
    "result (handshake (example_World (session_Handshake [NewChannel ''session'' []] True))
        example_Conn) =
     Inr (\<lparr>items = [NewChannel ''session'' []], is_closed = True\<rparr>,
          \<lparr>items = [], is_closed = True\<rparr>)"
    by (simp add: example_World_def session_Handshake_def)
  have closed: "is_closed \<lparr>items = [NewChannel ''session'' []], is_closed = True\<rparr>"
    by simp
  show ?thesis
    using client_disconnected_logged
      [OF established, of "main_serverConfig example_Flags example_key" example_Flags
         example_key]
      established closed
    by blast
qed

text \<open>
  C8. A connection whose handshake succeeded starts exactly one task that runs the request
  handler, and that task is \<^verbatim>\<open>request.Handle\<close> with the connection's remote address, the
  label "global" and the request stream that the handshake returned. A connection whose
  handshake failed starts none.
\<close>

theorem global_requests_dispatched_once:
  "(result (handshake w conn) = Inr (chs, reqs) \<longrightarrow>
      filter is_request_Handle (spawned (fst (handleConn w cfg conn))) =
        [request_Handle (Conn_RemoteAddr conn) ''global'' reqs]) \<and>
   (result (handshake w conn) = Inl err \<longrightarrow>
      filter is_request_Handle (spawned (fst (handleConn w cfg conn))) = [])"
proof -
  have "filter is_request_Handle (map (channel_Handle a) cs) = []" for a cs
    by (induction cs) simp_all
  then show ?thesis
    by (simp add: handleConn_spawned_established handleConn_spawned_failed)
qed

theorem global_requests_dispatched_once_witness:
  "result (handshake (example_World (session_Handshake [NewChannel ''session'' []] False))
      example_Conn) =
     Inr (\<lparr>items = [NewChannel ''session'' []], is_closed = False\<rparr>,
          \<lparr>items = [], is_closed = False\<rparr>) \<and>
   result (handshake (example_World failing_Handshake) example_Conn) = Inl ''EOF'' \<and>
   filter is_request_Handle (spawned (fst (handleConn
      (example_World (session_Handshake [NewChannel ''session'' []] False))
      (main_serverConfig example_Flags example_key) example_Conn))) =
     [request_Handle (Conn_RemoteAddr example_Conn) ''global''
        \<lparr>items = [], is_closed = False\<rparr>] \<and>
   filter is_request_Handle (spawned (fst (handleConn (example_World failing_Handshake)
      (main_serverConfig example_Flags example_key) example_Conn))) = []"
proof -
  have established:
    "result (handshake (example_World (session_Handshake [NewChannel ''session'' []] False))
        example_Conn) =
     Inr (\<lparr>items = [NewChannel ''session'' []], is_closed = False\<rparr>,
          \<lparr>items = [], is_closed = False\<rparr>)"
    by (simp add: example_World_def session_Handshake_def)
  have failed: "result (handshake (example_World failing_Handshake) example_Conn) = Inl ''EOF''"
    by (simp add: example_World_def failing_Handshake_def)
  show ?thesis
    using global_requests_dispatched_once
      [where w = "example_World (session_Handshake [NewChannel ''session'' []] False)"
         and conn = example_Conn
         and cfg = "main_serverConfig example_Flags example_key"
         and chs = "\<lparr>items = [NewChannel ''session'' []], is_closed = False\<rparr>"
         and reqs = "\<lparr>items = [], is_closed = False\<rparr>"]
      global_requests_dispatched_once
      [where w = "example_World failing_Handshake" and conn = example_Conn
         and cfg = "main_serverConfig example_Flags example_key" and err = "''EOF''"]
      established failed
    by blast
qed

section \<open>The records of a connection whose handshake fails\<close>

text \<open>
  C9, as the code has it. For an accepted connection whose handshake fails, the entries
  logged for the connection are, in order: "Client connected", logged by the accept loop
  before the task that runs the handshake is started; one "Password authentication
  accepted" entry for each password attempt that reached the callback during the handshake;
  and the warning that the handshake failed. No "Client disconnected" entry is among them.
  If the entries of a connection contain "Client disconnected", its handshake succeeded.
\<close>

theorem failed_handshake_records:
  "(result (handshake w conn) = Inl err \<longrightarrow>
      logs (connection_events w (main_serverConfig fl key) conn) =
        \<lparr>Level = InfoLevel, Message = ''Client connected'',
         Data = [''client'' \<mapsto> AddrVal (Conn_RemoteAddr conn)]\<rparr> #
        map (auth_entry conn (handshake w conn)) (attempts (handshake w conn)) @
        [\<lparr>Level = WarnLevel, Message = ''Failed to establish SSH connection:'' @ err,
          Data = Map.empty\<rparr>] \<and>
      filter is_disconnected (logs (connection_events w (main_serverConfig fl key) conn)) =
        []) \<and>
   (filter is_disconnected (logs (connection_events w (main_serverConfig fl key) conn)) \<noteq> []
      \<longrightarrow> (\<exists>chs reqs. result (handshake w conn) = Inr (chs, reqs)))"
proof -
  have failed: "logs (connection_events w (main_serverConfig fl key) conn) =
        \<lparr>Level = InfoLevel, Message = ''Client connected'',
         Data = [''client'' \<mapsto> AddrVal (Conn_RemoteAddr conn)]\<rparr> #
        map (auth_entry conn (handshake w conn)) (attempts (handshake w conn)) @
        [\<lparr>Level = WarnLevel, Message = ''Failed to establish SSH connection:'' @ e,
          Data = Map.empty\<rparr>] \<and>
      filter is_disconnected (logs (connection_events w (main_serverConfig fl key) conn)) =
        []"
    if "result (handshake w conn) = Inl e" for e
    using that
    by (simp add: connection_events_def logs_append handleConn_logs_failed
          auth_entry_not_disconnected WithFields_Info_def log_Warning_def Sprint_def
          is_disconnected_def)
  have only: "\<exists>chs reqs. result (handshake w conn) = Inr (chs, reqs)"
    if "filter is_disconnected
          (logs (connection_events w (main_serverConfig fl key) conn)) \<noteq> []"
  proof (cases "result (handshake w conn)")
    case (Inl e)
    with failed [of e] that show ?thesis by simp
  next
    case (Inr streams)
    then show ?thesis by (cases streams) simp
  qed
  show ?thesis
    using failed [of err] only by blast
qed

theorem failed_handshake_records_witness:
  "result (handshake (example_World failing_Handshake) example_Conn) = Inl ''EOF'' \<and>
   filter is_disconnected
     (logs (connection_events (example_World failing_Handshake)
        (main_serverConfig example_Flags example_key) example_Conn)) = [] \<and>
   filter is_disconnected
     (logs (connection_events (example_World (session_Handshake [] True))
        (main_serverConfig example_Flags example_key) example_Conn)) \<noteq> [] \<and>
   (\<exists>chs reqs. result (handshake (example_World (session_Handshake [] True)) example_Conn) =
      Inr (chs, reqs))"
proof -
  have failed: "result (handshake (example_World failing_Handshake) example_Conn) = Inl ''EOF''"
    by (simp add: example_World_def failing_Handshake_def)
  have established: "result (handshake (example_World (session_Handshake [] True)) example_Conn) =
      Inr (\<lparr>items = [], is_closed = True\<rparr>, \<lparr>items = [], is_closed = True\<rparr>)"
    by (simp add: example_World_def session_Handshake_def)
  have disconnected: "filter is_disconnected
     (logs (connection_events (example_World (session_Handshake [] True))
        (main_serverConfig example_Flags example_key) example_Conn)) \<noteq> []"
    by (simp add: connection_events_def logs_append
          handleConn_logs_established [OF established] WithFields_Info_def
          is_disconnected_def)
  show ?thesis
    using failed_handshake_records
      [where w = "example_World failing_Handshake" and conn = example_Conn
         and fl = example_Flags and key = example_key and err = "''EOF''"]
      failed_handshake_records
      [where w = "example_World (session_Handshake [] True)" and conn = example_Conn
         and fl = example_Flags and key = example_key]
      failed disconnected
    by blast
qed

theorem only_two_records_counterexample:
  "result (handshake
      (example_World
         \<lparr>client_version = ''SSH-2.0-Go'', attempts = [(''root'', ''hunter2'')],
          result = Inl ''EOF''\<rparr>)
      example_Conn) = Inl ''EOF'' \<and>
   logs (connection_events
      (example_World
         \<lparr>client_version = ''SSH-2.0-Go'', attempts = [(''root'', ''hunter2'')],
          result = Inl ''EOF''\<rparr>)
      (main_serverConfig example_Flags example_key) example_Conn) =
     [\<lparr>Level = InfoLevel, Message = ''Client connected'',
       Data = [''client'' \<mapsto> AddrVal (Addr ''tcp'' ''192.0.2.1:50000'')]\<rparr>,
      \<lparr>Level = InfoLevel, Message = ''Password authentication accepted'',
       Data = [''client'' \<mapsto> AddrVal (Addr ''tcp'' ''192.0.2.1:50000''),
               ''user'' \<mapsto> StringVal ''root'',
               ''password'' \<mapsto> StringVal ''hunter2'',
               ''version'' \<mapsto> StringVal ''SSH-2.0-Go'']\<rparr>,
      \<lparr>Level = WarnLevel, Message = ''Failed to establish SSH connection:EOF'',
       Data = Map.empty\<rparr>] \<and>
   length (logs (connection_events
      (example_World
         \<lparr>client_version = ''SSH-2.0-Go'', attempts = [(''root'', ''hunter2'')],
          result = Inl ''EOF''\<rparr>)
      (main_serverConfig example_Flags example_key) example_Conn)) \<noteq> 2"
  by (simp add: example_World_def example_Conn_def connection_events_def handleConn_def
        handleConn_body_def NewServerConn_def main_serverConfig_def AddHostKey_def
        PasswordCallback_def WithFields_Info_def log_Warning_def Sprint_def)

section \<open>The temporary host key\<close>

text \<open>
  C10. When no host key path is given and provisioning yields a host key, the key pair was
  generated by \<^verbatim>\<open>ed25519.GenerateKey\<close> with the nil reader, that is from
  \<^verbatim>\<open>crypto/rand.Reader\<close>, and the host key is the signer that \<^verbatim>\<open>ssh.NewSignerFromSigner\<close>
  makes from the generated Ed25519 private key. Provisioning logs exactly one entry, at
  warning level, whose only field, \<^verbatim>\<open>sha256_fingerprint\<close>, is the array that
  \<^verbatim>\<open>sha256.Sum256\<close> returns for the wire format of the host key's public key: 32 bytes, as
  they are, with no encoding.
\<close>

theorem ephemeral_key_is_ed25519:
  assumes "host_key fl = []" and "snd (main_host_key fl w) = Some key"
  shows "\<exists>pub priv.
           ed25519_GenerateKey w None =
             ([GenerateKey_from crypto_rand_Reader], Inr (pub, priv)) \<and>
           NewSignerFromSigner w (ed25519_PrivateKey priv) = Inr key \<and>
           logs (fst (main_host_key fl w)) =
             [\<lparr>Level = WarnLevel,
               Message = ''Using a temporary host key, consider creating a permanent one '' @
                         ''and passing it to -host_key'',
               Data = [''sha256_fingerprint'' \<mapsto>
                         Array32Val (Sum256 w (Marshal (PublicKey key)))]\<rparr>] \<and>
           length (Rep_array32 (Sum256 w (Marshal (PublicKey key)))) = 32"
proof -
  obtain evs where k: "main_host_key fl w = (evs, Some key)"
    using assms(2) by (cases "main_host_key fl w") simp
  have len: "length (Rep_array32 (Sum256 w (Marshal (PublicKey key)))) = 32"
    using Rep_array32 [of "Sum256 w (Marshal (PublicKey key))"] by simp
  show ?thesis
    using key_ok_cases [OF k] assms(1) len
    by (auto simp: k ed25519_GenerateKey_def rand_source_def WithFields_Warning_def)
qed

theorem ephemeral_key_is_ed25519_witness:
  "host_key (example_Flags\<lparr>host_key := []\<rparr>) = [] \<and>
   snd (main_host_key (example_Flags\<lparr>host_key := []\<rparr>) (example_World failing_Handshake)) =
     Some example_key \<and>
   (\<exists>pub priv.
      ed25519_GenerateKey (example_World failing_Handshake) None =
        ([GenerateKey_from crypto_rand_Reader], Inr (pub, priv)) \<and>
      NewSignerFromSigner (example_World failing_Handshake) (ed25519_PrivateKey priv) =
        Inr example_key)"
proof -
  have no_path: "host_key (example_Flags\<lparr>host_key := []\<rparr>) = []"
    by simp
  have key: "snd (main_host_key (example_Flags\<lparr>host_key := []\<rparr>)
      (example_World failing_Handshake)) = Some example_key"
    by (simp add: main_host_key_def ed25519_GenerateKey_def rand_source_def
          example_World_def)
  show ?thesis
    using ephemeral_key_is_ed25519 [OF no_path key] no_path key by blast
qed

end
